theory Spec2Isabelle
  imports Main
begin

section \<open>The browser client: public/client.js\<close>

text \<open>
  The script has three functions: \<open>loadMarkdown\<close> fetches the rendered document and puts
  it into the page, \<open>exportToPDF\<close> asks the server for the PDF and opens it, and
  \<open>setupLiveReload\<close> listens on the event stream. Each is an \<open>async\<close> function or a
  callback, so its body runs in pieces: from one \<open>await\<close> to the next, and later in a
  timer. The model makes the outcome of every awaited promise an input, and returns the
  page as it stands at each point where the script waits. Strings are byte strings: a
  character outside ASCII is held as its UTF-8 bytes.
\<close>

subsection \<open>Promises, JSON values and HTTP responses\<close>

text \<open>
  A promise the script awaits either rejects with an error (kept as its message) or
  fulfils with a value.
\<close>

datatype 'a settled = Rejected string | Fulfilled 'a

text \<open>
  What \<open>response.json()\<close> can fulfil with: any JSON value. A number is kept as the
  string JavaScript prints for it, which is all the script can observe of it.
\<close>

datatype json =
    JNull
  | JBool bool
  | JNum string
  | JString string
  | JArray "json list"
  | JObject "(string \<times> json) list"

type_synonym blob = string

text \<open>
  A response of \<open>fetch\<close>: its \<open>ok\<close> flag (status 200 to 299), and what reading the body
  as JSON and as a blob gives.
\<close>

record response =
  resp_ok :: bool
  resp_json :: "json settled"
  resp_blob :: "blob settled"

subsection \<open>The page\<close>

text \<open>
  The parts of the document and of the window that the script reads or writes: the
  element \<open>markdown-content\<close> (its \<open>innerHTML\<close> and \<open>style.opacity\<close>), the button
  \<open>export-pdf-btn\<close> (its \<open>textContent\<close> and \<open>disabled\<close>), the console, the alerts shown
  and the windows opened. \<open>window.open(URL.createObjectURL(blob), '_blank')\<close> is
  recorded as the blob and the target: the object URL names that blob and nothing else.
  Both elements are in the page that \<open>index.html\<close> serves.
\<close>

datatype console_entry = Log string | Error string string

record page =
  content_innerHTML :: string
  content_opacity :: string
  btn_textContent :: string
  btn_disabled :: bool
  console_out :: "console_entry list"
  alerts :: "string list"
  opened :: "(blob \<times> string) list"

subsection \<open>loadMarkdown (lines 2 to 22)\<close>

definition load_error_html :: string where
  "load_error_html =
     ''<p style=\"color: red;\">Error loading resume. Please refresh the page.</p>''"

text \<open>The \<open>catch\<close> block, lines 17 to 21.\<close>

definition loadMarkdown_catch :: "string \<Rightarrow> page \<Rightarrow> page" where
  "loadMarkdown_catch e p =
     p\<lparr>console_out := console_out p @ [Error ''Error loading markdown:'' e],
       content_innerHTML := load_error_html\<rparr>"

text \<open>
  The \<open>try\<close> block up to the call of \<open>setTimeout\<close>, lines 3 to 15. The result is the
  page when the function returns, and the \<open>data\<close> the timer's callback closes over when
  a timer was set.
\<close>

definition loadMarkdown :: "response settled \<Rightarrow> page \<Rightarrow> page \<times> json option" where
  "loadMarkdown fetched p =
     (case fetched of
        Rejected e \<Rightarrow> (loadMarkdown_catch e p, None)
      | Fulfilled response \<Rightarrow>
          (case resp_json response of
             Rejected e \<Rightarrow> (loadMarkdown_catch e p, None)
           | Fulfilled data \<Rightarrow> (p\<lparr>content_opacity := ''0.5''\<rparr>, Some data)))"

text \<open>
  \<open>data.html\<close> and \<open>data.type\<close>: reading a property of \<open>null\<close> throws a TypeError;
  an object gives the value of its member of that name (the last one, when the text
  repeated the key, as \<open>JSON.parse\<close> keeps it) or \<open>undefined\<close>; any other JSON value
  has no such property. \<open>None\<close> is \<open>undefined\<close>.
\<close>

definition get_property :: "string \<Rightarrow> json \<Rightarrow> string + json option" where
  "get_property name data =
     (case data of
        JNull \<Rightarrow>
          Inl (''TypeError: Cannot read properties of null (reading '' @ name @ '')'')
      | JObject members \<Rightarrow> Inr (map_of (rev members) name)
      | _ \<Rightarrow> Inr None)"

fun join :: "string \<Rightarrow> string list \<Rightarrow> string" where
  "join sep [] = []"
| "join sep [x] = x"
| "join sep (x # y # ys) = x @ sep @ join sep (y # ys)"

text \<open>JavaScript's conversion of a value to a string.\<close>

fun to_string :: "json \<Rightarrow> string" where
  "to_string JNull = ''null''"
| "to_string (JBool b) = (if b then ''true'' else ''false'')"
| "to_string (JNum s) = s"
| "to_string (JString s) = s"
| "to_string (JArray xs) =
     join '','' (map (\<lambda>x. if x = JNull then [] else to_string x) xs)"
| "to_string (JObject members) = ''[object Object]''"

text \<open>
  What the setter of \<open>innerHTML\<close> stores: the value as a string, \<open>null\<close> as the
  empty string, \<open>undefined\<close> as the text \<open>undefined\<close>.
\<close>

definition to_DOMString :: "json option \<Rightarrow> string" where
  "to_DOMString v =
     (case v of None \<Rightarrow> ''undefined'' | Some JNull \<Rightarrow> [] | Some x \<Rightarrow> to_string x)"

text \<open>
  The timer's callback, lines 12 to 15. It runs after the function has returned, outside
  the \<open>try\<close>: an error it throws is not caught (\<open>Inl\<close>) and leaves the page as it was.
\<close>

definition loadMarkdown_timeout :: "json \<Rightarrow> page \<Rightarrow> string + page" where
  "loadMarkdown_timeout data p =
     (case get_property ''html'' data of
        Inl e \<Rightarrow> Inl e
      | Inr v \<Rightarrow> Inr (p\<lparr>content_innerHTML := to_DOMString v, content_opacity := ''1''\<rparr>))"

text \<open>The page once the call and its timer, if it set one, have both run.\<close>

definition loadMarkdown_done :: "response settled \<Rightarrow> page \<Rightarrow> page" where
  "loadMarkdown_done fetched p =
     (case loadMarkdown fetched p of
        (p1, None) \<Rightarrow> p1
      | (p1, Some data) \<Rightarrow>
          (case loadMarkdown_timeout data p1 of Inl e \<Rightarrow> p1 | Inr p2 \<Rightarrow> p2))"

subsection \<open>exportToPDF (lines 25 to 59)\<close>

definition loading_label :: string where
  "loading_label = [CHR 0xE2, CHR 0x8F, CHR 0xB3] @ '' Generating PDF...''"

definition export_alert :: string where
  "export_alert = ''Error generating PDF. Please try again.''"

definition export_ok_message :: string where
  "export_ok_message = [CHR 0xE2, CHR 0x9C, CHR 0x85] @ '' PDF generated successfully''"

definition export_error_message :: string where
  "export_error_message = [CHR 0xE2, CHR 0x9D, CHR 0x8C] @ '' PDF generation error:''"

text \<open>
  Lines 29 to 31, before the first \<open>await\<close>: the button's text is remembered, then the
  button shows the loading label and is disabled. The function is registered as the
  click handler only when the button exists (line 93), so the button is part of the page.
\<close>

definition exportToPDF_start :: "page \<Rightarrow> string \<times> page" where
  "exportToPDF_start p =
     (btn_textContent p, p\<lparr>btn_textContent := loading_label, btn_disabled := True\<rparr>)"

text \<open>The \<open>catch\<close> block, lines 53 to 58.\<close>

definition exportToPDF_catch :: "string \<Rightarrow> string \<Rightarrow> page \<Rightarrow> page" where
  "exportToPDF_catch originalText e p =
     p\<lparr>console_out := console_out p @ [Error export_error_message e],
       btn_textContent := originalText,
       btn_disabled := False,
       alerts := alerts p @ [export_alert]\<rparr>"

text \<open>Lines 45 to 52, once the blob is there.\<close>

definition exportToPDF_open :: "string \<Rightarrow> blob \<Rightarrow> page \<Rightarrow> page" where
  "exportToPDF_open originalText b p =
     p\<lparr>opened := opened p @ [(b, ''_blank'')],
       btn_textContent := originalText,
       btn_disabled := False,
       console_out := console_out p @ [Log export_ok_message]\<rparr>"

text \<open>
  The whole function. The first component lists the page at each \<open>await\<close>, while the
  request is in flight: at \<open>fetch\<close> (line 35) and, when the response is ok, at
  \<open>response.blob()\<close> (line 42). The second is the page when the function has finished.
\<close>

definition exportToPDF :: "response settled \<Rightarrow> page \<Rightarrow> page list \<times> page" where
  "exportToPDF fetched p =
     (case exportToPDF_start p of
        (originalText, p1) \<Rightarrow>
          (case fetched of
             Rejected e \<Rightarrow> ([p1], exportToPDF_catch originalText e p1)
           | Fulfilled response \<Rightarrow>
               if \<not> resp_ok response
               then ([p1], exportToPDF_catch originalText ''Error: PDF generation failed'' p1)
               else (case resp_blob response of
                       Rejected e \<Rightarrow> ([p1, p1], exportToPDF_catch originalText e p1)
                     | Fulfilled b \<Rightarrow> ([p1, p1], exportToPDF_open originalText b p1))))"

text \<open>A request that failed: \<open>fetch\<close> rejected, or the response is not ok.\<close>

definition export_failed :: "response settled \<Rightarrow> bool" where
  "export_failed fetched =
     (case fetched of Rejected e \<Rightarrow> True | Fulfilled response \<Rightarrow> \<not> resp_ok response)"

text \<open>The blob of a request that succeeded.\<close>

definition export_blob :: "response settled \<Rightarrow> blob option" where
  "export_blob fetched =
     (case fetched of
        Rejected e \<Rightarrow> None
      | Fulfilled response \<Rightarrow>
          if resp_ok response
          then (case resp_blob response of Rejected e \<Rightarrow> None | Fulfilled b \<Rightarrow> Some b)
          else None)"

subsection \<open>setupLiveReload: the handler of messages (lines 69 to 78)\<close>

definition connected_log :: string where
  "connected_log =
     [CHR 0xF0, CHR 0x9F, CHR 0x94, CHR 0x97] @ '' Live reload connection established''"

definition update_log :: string where
  "update_log =
     [CHR 0xF0, CHR 0x9F, CHR 0x94, CHR 0x84] @ '' File changed, reloading content...''"

text \<open>
  The argument is what \<open>JSON.parse(event.data)\<close> gives: a SyntaxError (\<open>Inl\<close>) or a
  value. The result is an error the handler does not catch, or the page and whether
  \<open>loadMarkdown\<close> was called.
\<close>

definition onmessage :: "string + json \<Rightarrow> page \<Rightarrow> string + page \<times> bool" where
  "onmessage parsed p =
     (case parsed of
        Inl e \<Rightarrow> Inl e
      | Inr data \<Rightarrow>
          (case get_property ''type'' data of
             Inl e \<Rightarrow> Inl e
           | Inr t \<Rightarrow>
               if t = Some (JString ''connected'')
               then Inr (p\<lparr>console_out := console_out p @ [Log connected_log]\<rparr>, False)
               else if t = Some (JString ''update'')
               then Inr (p\<lparr>console_out := console_out p @ [Log update_log]\<rparr>, True)
               else Inr (p, False)))"

subsection \<open>Sample inputs\<close>

text \<open>
  The page as \<open>index.html\<close> serves it (the button's label is the one the repository's
  documents show), and two responses of the server: the error envelope with status 500,
  and a rendered document.
\<close>

definition sample_page :: page where
  "sample_page =
     \<lparr>content_innerHTML = ''<p>Loading resume...</p>'', content_opacity = [],
      btn_textContent = [CHR 0xF0, CHR 0x9F, CHR 0x93, CHR 0x84] @ '' Export as PDF'',
      btn_disabled = False, console_out = [], alerts = [], opened = []\<rparr>"

definition error_500 :: response where
  "error_500 =
     \<lparr>resp_ok = False,
      resp_json = Fulfilled (JObject [(''error'', JString ''Failed to load markdown'')]),
      resp_blob = Fulfilled ''{error: Failed to load markdown}''\<rparr>"

definition rendered_200 :: response where
  "rendered_200 =
     \<lparr>resp_ok = True,
      resp_json = Fulfilled (JObject [(''html'', JString ''<h1>Resume</h1>'')]),
      resp_blob = Fulfilled ''{html: <h1>Resume</h1>}''\<rparr>"

section \<open>The PDF route of the server: GET /api/generate-pdf\<close>

text \<open>
  \<open>server.js\<close> is not among the repository's files at hand. Its PDF route is given twice
  in the repository's documents: as code, in the migration plan (part_001, lines 779 to
  820: \<open>app.get('/api/generate-pdf', ...)\<close>), and in words, in the note on PDF styling
  (part_002, lines 113 to 122), which describes the route as implemented. The two agree
  on the options of \<open>page.pdf\<close>; they differ in how the page gets its content: the plan
  navigates with \<open>page.goto\<close>, the implemented route loads an assembled document with
  \<open>page.setContent\<close>. The model below follows the plan's code and keeps the way the
  content is loaded as a parameter.
\<close>

subsection \<open>The options of page.pdf (part_001, lines 796 to 805)\<close>

record margin =
  margin_top :: string
  margin_right :: string
  margin_bottom :: string
  margin_left :: string

record pdf_options =
  pdf_format :: string
  printBackground :: bool
  pdf_margin :: margin

definition page_pdf_options :: pdf_options where
  "page_pdf_options =
     \<lparr>pdf_format = ''Letter'',
      printBackground = True,
      pdf_margin = \<lparr>margin_top = ''0.25in'', margin_right = ''0.5in'',
                     margin_bottom = ''0.5in'', margin_left = ''0.5in''\<rparr>\<rparr>"

subsection \<open>The headless browser\<close>

text \<open>
  How a page gets its content, and what it then holds. The automation library is opaque:
  a PDF is kept as what was printed and with which options.
\<close>

datatype load_action = Goto string | SetContent string

datatype content = Blank | PageAt string | Html string

fun content_of :: "load_action \<Rightarrow> content" where
  "content_of (Goto url) = PageAt url"
| "content_of (SetContent html) = Html html"

datatype pdf = PrintOf content pdf_options

text \<open>The calls made to the library, each with the browser it addresses.\<close>

datatype call =
    Launch
  | NewPage nat
  | Load nat load_action
  | PrintPdf nat pdf_options
  | Close nat

text \<open>
  The browser processes of the machine: the number the next process gets, the processes
  that run, what the page of each holds, and the calls made so far.
\<close>

record chrome =
  next_browser :: nat
  running :: "nat list"
  loaded :: "nat \<Rightarrow> content"
  calls :: "call list"


subsection \<open>The route handler (part_001, lines 779 to 820)\<close>

text \<open>
  The handler is an \<open>async\<close> function: it runs from one \<open>await\<close> to the next, and other
  requests run in between. Its state is the call it is about to make, with its local
  variables \<open>browser\<close> and \<open>pdf\<close>; it ends with \<open>res.send(pdf)\<close> or, from the \<open>catch\<close>
  block, with status 500. The \<open>catch\<close> block does not close the browser: \<open>Failed\<close>
  remembers the process the request leaves behind.
\<close>

datatype pc =
    Launching
  | OpeningPage nat
  | Loading nat
  | Printing nat
  | Closing nat pdf
  | Sent pdf
  | Failed "nat option"

text \<open>
  One step: the call is made and settles, \<open>ok\<close> telling whether it fulfils or rejects.
\<close>

fun generate_pdf_step :: "load_action \<Rightarrow> bool \<Rightarrow> chrome \<Rightarrow> pc \<Rightarrow> chrome \<times> pc" where
  "generate_pdf_step l ok w Launching =
     (if ok
      then (w\<lparr>next_browser := Suc (next_browser w),
              running := running w @ [next_browser w],
              calls := calls w @ [Launch]\<rparr>, OpeningPage (next_browser w))
      else (w\<lparr>calls := calls w @ [Launch]\<rparr>, Failed None))"
| "generate_pdf_step l ok w (OpeningPage b) =
     (if ok
      then (w\<lparr>loaded := (loaded w)(b := Blank), calls := calls w @ [NewPage b]\<rparr>, Loading b)
      else (w\<lparr>calls := calls w @ [NewPage b]\<rparr>, Failed (Some b)))"
| "generate_pdf_step l ok w (Loading b) =
     (if ok
      then (w\<lparr>loaded := (loaded w)(b := content_of l), calls := calls w @ [Load b l]\<rparr>,
            Printing b)
      else (w\<lparr>calls := calls w @ [Load b l]\<rparr>, Failed (Some b)))"
| "generate_pdf_step l ok w (Printing b) =
     (if ok
      then (w\<lparr>calls := calls w @ [PrintPdf b page_pdf_options]\<rparr>,
            Closing b (PrintOf (loaded w b) page_pdf_options))
      else (w\<lparr>calls := calls w @ [PrintPdf b page_pdf_options]\<rparr>, Failed (Some b)))"
| "generate_pdf_step l ok w (Closing b doc) =
     (if ok
      then (w\<lparr>running := removeAll b (running w), calls := calls w @ [Close b]\<rparr>, Sent doc)
      else (w\<lparr>calls := calls w @ [Close b]\<rparr>, Failed (Some b)))"
| "generate_pdf_step l ok w (Sent doc) = (w, Sent doc)"
| "generate_pdf_step l ok w (Failed b) = (w, Failed b)"

text \<open>One request, its calls settling as \<open>oks\<close> says.\<close>

definition generate_pdf :: "load_action \<Rightarrow> bool list \<Rightarrow> chrome \<Rightarrow> chrome \<times> pc" where
  "generate_pdf l oks w = fold (\<lambda>ok (w, p). generate_pdf_step l ok w p) oks (w, Launching)"












text \<open>The options of the \<open>page.pdf\<close> calls, and the URLs and documents of the loads.\<close>

fun printed_with :: "call list \<Rightarrow> pdf_options list" where
  "printed_with [] = []"
| "printed_with (PrintPdf b opts # cs) = opts # printed_with cs"
| "printed_with (c # cs) = printed_with cs"

fun navigations :: "call list \<Rightarrow> string list" where
  "navigations [] = []"
| "navigations (Load b (Goto url) # cs) = url # navigations cs"
| "navigations (c # cs) = navigations cs"

fun injected :: "call list \<Rightarrow> string list" where
  "injected [] = []"
| "injected (Load b (SetContent html) # cs) = html # injected cs"
| "injected (c # cs) = injected cs"

text \<open>The plan's way to load the page (part_001, lines 790 to 793).\<close>

definition plan_load :: "string \<Rightarrow> load_action" where
  "plan_load port = Goto (''http://localhost:'' @ port)"



subsection \<open>The invariant of two requests\<close>





section \<open>The event stream: GET /events\<close>







section \<open>Properties of the client\<close>

lemma exportToPDF_cases:
  "exportToPDF fetched p =
     (let p1 = p\<lparr>btn_textContent := loading_label, btn_disabled := True\<rparr> in
      case fetched of
        Rejected e \<Rightarrow> ([p1], exportToPDF_catch (btn_textContent p) e p1)
      | Fulfilled response \<Rightarrow>
          if \<not> resp_ok response
          then ([p1], exportToPDF_catch (btn_textContent p) ''Error: PDF generation failed'' p1)
          else (case resp_blob response of
                  Rejected e \<Rightarrow> ([p1, p1], exportToPDF_catch (btn_textContent p) e p1)
                | Fulfilled b \<Rightarrow> ([p1, p1], exportToPDF_open (btn_textContent p) b p1)))"
  by (simp add: exportToPDF_def exportToPDF_start_def Let_def)

text \<open>
  C7. When the export request fails (\<open>fetch\<close> rejects, or the response is not ok), the
  client shows one alert, and the export button gets back the text it had and is
  enabled again.
\<close>

theorem exportToPDF_failure_alerts_and_reenables:
  assumes "export_failed fetched"
  shows "alerts (snd (exportToPDF fetched p)) = alerts p @ [export_alert]
       \<and> btn_textContent (snd (exportToPDF fetched p)) = btn_textContent p
       \<and> btn_disabled (snd (exportToPDF fetched p)) = False"
  using assms
  by (cases fetched)
     (simp_all add: exportToPDF_cases export_failed_def exportToPDF_catch_def Let_def)

theorem exportToPDF_failure_witness:
  "export_failed (Fulfilled error_500)
   \<and> alerts (snd (exportToPDF (Fulfilled error_500) sample_page)) = [export_alert]
   \<and> btn_textContent (snd (exportToPDF (Fulfilled error_500) sample_page))
     = [CHR 0xF0, CHR 0x9F, CHR 0x93, CHR 0x84] @ '' Export as PDF''
   \<and> btn_disabled (snd (exportToPDF (Fulfilled error_500) sample_page)) = False"
proof -
  have failed: "export_failed (Fulfilled error_500)"
    by (simp add: export_failed_def error_500_def)
  show ?thesis
    using failed exportToPDF_failure_alerts_and_reenables [OF failed, of sample_page]
    by (simp add: sample_page_def)
qed

text \<open>
  C10. For every call of \<open>exportToPDF\<close>: at each point where the function waits for
  the request, the button is disabled and shows the loading label (and nothing else
  of the page has changed); when the function has finished, whether the request
  succeeded or failed, the button has the text it had before the call and is enabled.
  A request that succeeded has opened its blob in a new tab, a request that did not
  has opened nothing.
\<close>

theorem exportToPDF_button_states:
  "set (fst (exportToPDF fetched p))
     = {p\<lparr>btn_textContent := loading_label, btn_disabled := True\<rparr>}
   \<and> btn_textContent (snd (exportToPDF fetched p)) = btn_textContent p
   \<and> btn_disabled (snd (exportToPDF fetched p)) = False
   \<and> opened (snd (exportToPDF fetched p))
     = opened p @ (case export_blob fetched of None \<Rightarrow> [] | Some b \<Rightarrow> [(b, ''_blank'')])"
  by (cases fetched)
     (simp_all add: exportToPDF_cases export_blob_def exportToPDF_catch_def
        exportToPDF_open_def Let_def split: settled.splits)

text \<open>
  When \<open>fetch\<close> rejects, or the body of the response is not JSON, \<open>loadMarkdown\<close>
  puts the error paragraph into the content area and sets no timer.
\<close>

lemma loadMarkdown_rejected:
  "loadMarkdown (Rejected e) p = (loadMarkdown_catch e p, None)"
  "resp_json response = Rejected e \<Longrightarrow>
     loadMarkdown (Fulfilled response) p = (loadMarkdown_catch e p, None)"
  by (simp_all add: loadMarkdown_def)

lemma loadMarkdown_done_rejected:
  "content_innerHTML (loadMarkdown_done (Rejected e) p) = load_error_html"
  "resp_json response = Rejected e \<Longrightarrow>
     content_innerHTML (loadMarkdown_done (Fulfilled response) p) = load_error_html"
  by (simp_all add: loadMarkdown_done_def loadMarkdown_def loadMarkdown_catch_def)

text \<open>A rendered document ends up in the content area, at full opacity.\<close>

lemma loadMarkdown_done_html:
  assumes "resp_json response = Fulfilled (JObject [(''html'', JString h)])"
  shows "content_innerHTML (loadMarkdown_done (Fulfilled response) p) = h
       \<and> content_opacity (loadMarkdown_done (Fulfilled response) p) = ''1''"
  using assms
  by (simp add: loadMarkdown_done_def loadMarkdown_def loadMarkdown_timeout_def
        get_property_def to_DOMString_def)

lemma loadMarkdown_done_sample:
  "content_innerHTML (loadMarkdown_done (Fulfilled rendered_200) sample_page) = ''<h1>Resume</h1>''"
  by (simp add: loadMarkdown_done_html rendered_200_def)

text \<open>
  The handler of messages reloads the document for an "update" message and for no other:
  "connected" is logged, and a message of any other type is ignored.
\<close>

lemma onmessage_update:
  "onmessage (Inr (JObject [(''type'', JString ''update'')])) p
     = Inr (p\<lparr>console_out := console_out p @ [Log update_log]\<rparr>, True)"
  by (simp add: onmessage_def get_property_def)

lemma onmessage_connected:
  "onmessage (Inr (JObject [(''type'', JString ''connected'')])) p
     = Inr (p\<lparr>console_out := console_out p @ [Log connected_log]\<rparr>, False)"
  by (simp add: onmessage_def get_property_def)

lemma onmessage_reloads_only_on_update:
  "onmessage parsed p = Inr (q, True) \<Longrightarrow>
     \<exists>data. parsed = Inr data \<and> get_property ''type'' data = Inr (Some (JString ''update''))"
  by (auto simp: onmessage_def split: sum.splits if_splits)

text \<open>
  C6. The claim: when the fetch of \<open>/api/markdown\<close> fails, the page shows the inline
  error message. The server reports a document it cannot read with status 500 and the
  body \<open>{"error": ...}\<close>. \<open>loadMarkdown\<close> never looks at \<open>response.ok\<close> (as
  \<open>exportToPDF\<close> does, line 37): the body parses, \<open>data.html\<close> is \<open>undefined\<close>, and
  the timer writes the text \<open>undefined\<close> into the content area. Nothing is logged and
  the error paragraph is not shown.
\<close>

theorem loadMarkdown_error_envelope_shows_undefined:
  "resp_ok error_500 = False
   \<and> loadMarkdown (Fulfilled error_500) sample_page
     = (sample_page\<lparr>content_opacity := ''0.5''\<rparr>,
        Some (JObject [(''error'', JString ''Failed to load markdown'')]))
   \<and> content_innerHTML (loadMarkdown_done (Fulfilled error_500) sample_page) = ''undefined''
   \<and> content_innerHTML (loadMarkdown_done (Fulfilled error_500) sample_page) \<noteq> load_error_html
   \<and> console_out (loadMarkdown_done (Fulfilled error_500) sample_page) = []"
  by (simp add: loadMarkdown_done_def loadMarkdown_def loadMarkdown_timeout_def
        get_property_def to_DOMString_def error_500_def sample_page_def load_error_html_def)

section \<open>Properties of the PDF route\<close>

lemma printed_with_append [simp]:
  "printed_with (cs @ ds) = printed_with cs @ printed_with ds"
  by (induction cs rule: printed_with.induct) simp_all

lemma navigations_append [simp]:
  "navigations (cs @ ds) = navigations cs @ navigations ds"
  by (induction cs rule: navigations.induct) simp_all

lemma injected_append [simp]:
  "injected (cs @ ds) = injected cs @ injected ds"
  by (induction cs rule: injected.induct) simp_all

lemma generate_pdf_Nil [simp]: "generate_pdf l [] w = (w, Launching)"
  by (simp add: generate_pdf_def)




lemma generate_pdf_success:
  "generate_pdf l [True, True, True, True, True] w =
     (w\<lparr>next_browser := Suc (next_browser w),
        running := removeAll (next_browser w) (running w @ [next_browser w]),
        loaded := (loaded w)(next_browser w := content_of l),
        calls := calls w @ [Launch, NewPage (next_browser w), Load (next_browser w) l,
                            PrintPdf (next_browser w) page_pdf_options,
                            Close (next_browser w)]\<rparr>,
      Sent (PrintOf (content_of l) page_pdf_options))"
  by (simp add: generate_pdf_def)



subsection \<open>How the page gets its content\<close>



text \<open>
  The route as the migration plan writes it does navigate to the server's own address:
  a request whose calls all fulfil has one \<open>page.goto\<close> and injects nothing.
\<close>

lemma plan_navigates:
  "navigations (calls (fst (generate_pdf (plan_load port) [True, True, True, True, True] w)))
     = navigations (calls w) @ [''http://localhost:'' @ port]
   \<and> injected (calls (fst (generate_pdf (plan_load port) [True, True, True, True, True] w)))
     = injected (calls w)"
  by (simp add: generate_pdf_success plan_load_def)


subsection \<open>Two requests at once\<close>

















section \<open>Properties of the event stream\<close>





end
